theory Spec2Isabelle
  imports Main
begin

section \<open>Shared data model\<close>

text \<open>
  Strings are byte strings (\<open>char list\<close>): a JavaScript string is taken as its UTF-8
  encoding, which is what \<open>Buffer.from(string)\<close> yields. \<open>undefined\<close> is \<open>None\<close>.
  A sequence number is an integer; \<open>undefined + 1\<close> is \<open>NaN\<close>, which is unequal to
  everything, itself included.
\<close>

type_synonym address = string

datatype error =
    NoDataProvided
  | NoKeyProvided
  | ERR_CONFLICT_SEQ
  | NoKeysSet
  | DataTooLarge
  | TransportError string
  | Thrown string

record keypair =
  publicKey :: string
  secretKey :: string

text \<open>The options object \<open>opts\<close> handed to \<open>put\<close> and \<open>get\<close>.\<close>

record opts =
  opt_seq :: "int option"
  opt_salt :: "string option"
  opt_keys :: "keypair option"
  opt_recursive :: bool

text \<open>
  A record as stored at one address: \<open>v\<close>, \<open>seq\<close>, \<open>salt\<close>, \<open>k\<close>, \<open>sig\<close>, the
  transport's \<open>id\<close> tag and the reassembler's \<open>original\<close>. A field that is absent
  from the JavaScript object is \<open>None\<close>.
\<close>

record payload =
  v :: "string option"
  seq :: "int option"
  salt :: "string option"
  k :: "string option"
  sig :: "string option"
  id_tag :: "string option"
  original :: "string option"

definition empty_payload :: payload where
  "empty_payload =
     \<lparr>v = None, seq = None, salt = None, k = None, sig = None, id_tag = None,
      original = None\<rparr>"

text \<open>
  Primitives of the platform the code calls: the SHA-1 hex digest of
  \<open>crypto.createHash('sha1')\<close>, the hex signature that \<open>ed.sign\<close> returns for the
  bencoded tuple of \<open>seq\<close>, \<open>v\<close> and the caller's salt, and the decimal rendering of
  the \<open>n\<close>-th value \<open>Math.random()\<close> returns.
\<close>

record platform =
  sha1_hex :: "string \<Rightarrow> string"
  sign_hex :: "int option \<Rightarrow> string \<Rightarrow> string option \<Rightarrow> keypair \<Rightarrow> string"
  math_random :: "nat \<Rightarrow> string"

text \<open>JavaScript truthiness of an optional string: \<open>undefined\<close> and \<open>''\<close> are falsy.\<close>

fun truthy :: "string option \<Rightarrow> bool" where
  "truthy None = False"
| "truthy (Some s) = (s \<noteq> [])"

subsection \<open>Hex encoding of a buffer\<close>

definition hex_digit :: "nat \<Rightarrow> char" where
  "hex_digit n = ''0123456789abcdef'' ! (n mod 16)"

definition hex_byte :: "char \<Rightarrow> string" where
  "hex_byte c = [hex_digit (of_char c div 16), hex_digit (of_char c mod 16)]"

definition toString_hex :: "string \<Rightarrow> string" where
  "toString_hex bs = concat (map hex_byte bs)"

section \<open>The memory backend\<close>

text \<open>
  \<open>getSha\<close> hashes the data followed by the decimal rendering of \<open>Math.random()\<close>;
  the random rendering is the argument \<open>rnd\<close>.
\<close>

definition getSha :: "platform \<Rightarrow> string \<Rightarrow> string \<Rightarrow> string" where
  "getSha pf rnd data = sha1_hex pf (data @ rnd)"

text \<open>The store of the memory backend: a JavaScript object keyed by address.\<close>

type_synonym mstore = "address \<rightharpoonup> payload"

definition mem_getPayload ::
  "platform \<Rightarrow> keypair \<Rightarrow> string \<Rightarrow> string \<Rightarrow> opts \<Rightarrow> payload" where
  "mem_getPayload pf ks rnd data os =
     (let salt' = (case opt_salt os of
                     Some s \<Rightarrow> if s \<noteq> [] then s else getSha pf rnd data
                   | None \<Rightarrow> getSha pf rnd data)
      in \<lparr>v = Some data, seq = opt_seq os, salt = Some salt',
          k = Some (toString_hex (publicKey ks)),
          sig = Some (sign_hex pf (opt_seq os) data (opt_salt os) ks),
          id_tag = None, original = None\<rparr>)"

text \<open>
  The key of a record: the bytes of the string \<open>k\<close> followed by the bytes of the salt,
  hex-encoded. \<open>Buffer.from(undefined)\<close> throws, which is \<open>None\<close> here.
\<close>

definition mem_key :: "payload \<Rightarrow> address option" where
  "mem_key p =
     (case (k p, salt p) of
        (Some kk, Some ss) \<Rightarrow> Some (toString_hex (kk @ ss))
      | _ \<Rightarrow> None)"

text \<open>\<open>this.store[key].seq + 1 !== payload.seq\<close>\<close>

definition seq_conflict :: "int option \<Rightarrow> int option \<Rightarrow> bool" where
  "seq_conflict stored incoming =
     (case stored of None \<Rightarrow> True | Some s \<Rightarrow> incoming \<noteq> Some (s + 1))"

definition mem_put ::
  "platform \<Rightarrow> keypair \<Rightarrow> string \<Rightarrow> mstore \<Rightarrow> string \<Rightarrow> opts
     \<Rightarrow> (error + address) \<times> mstore" where
  "mem_put pf ks rnd store data os =
     (if data = [] then (Inl NoDataProvided, store)
      else
        let p = mem_getPayload pf ks rnd data os
        in (case mem_key p of
              None \<Rightarrow> (Inl (Thrown ''TypeError''), store)
            | Some key \<Rightarrow>
               (case store key of
                  None \<Rightarrow> (Inr key, store(key \<mapsto> p))
                | Some old \<Rightarrow>
                    if seq_conflict (seq old) (seq p) then (Inl ERR_CONFLICT_SEQ, store)
                    else (Inr key, store(key \<mapsto> p)))))"

definition mem_get :: "mstore \<Rightarrow> address \<Rightarrow> error + payload" where
  "mem_get store key =
     (if key = [] then Inl NoKeyProvided
      else (case store key of
              Some r \<Rightarrow> Inr (r\<lparr>id_tag := Some ''memory''\<rparr>)
            | None \<Rightarrow> Inr (empty_payload\<lparr>id_tag := Some ''memory''\<rparr>)))"

text \<open>The salt a memory-backend record carries: the caller's if truthy, else a digest.\<close>

definition mem_salt :: "platform \<Rightarrow> string \<Rightarrow> string \<Rightarrow> opts \<Rightarrow> string" where
  "mem_salt pf rnd data os =
     (case opt_salt os of
        Some s \<Rightarrow> if s \<noteq> [] then s else getSha pf rnd data
      | None \<Rightarrow> getSha pf rnd data)"

text \<open>The address the memory backend computes for a put.\<close>

definition mem_address :: "platform \<Rightarrow> keypair \<Rightarrow> string \<Rightarrow> string \<Rightarrow> opts \<Rightarrow> address" where
  "mem_address pf ks rnd data os =
     toString_hex (toString_hex (publicKey ks) @ mem_salt pf rnd data os)"

text \<open>
  A platform for the examples: the digest of a string is \<open>0\<close> followed by its hex
  encoding (an injective, never empty stand-in for SHA-1), the signature is empty, and
  the \<open>n\<close>-th random rendering is \<open>0.\<close> followed by \<open>n + 1\<close> ones.
\<close>

definition example_platform :: platform where
  "example_platform =
     \<lparr>sha1_hex = (\<lambda>s. CHR ''0'' # toString_hex s), sign_hex = (\<lambda>_ _ _ _. []),
      math_random = (\<lambda>n. ''0.'' @ replicate (Suc n) CHR ''1'')\<rparr>"

definition example_keys :: keypair where
  "example_keys = \<lparr>publicKey = [CHR 0xAB, CHR 0x01], secretKey = ''secret''\<rparr>"

definition example_opts :: "int option \<Rightarrow> string option \<Rightarrow> opts" where
  "example_opts s sl = \<lparr>opt_seq = s, opt_salt = sl, opt_keys = None, opt_recursive = False\<rparr>"

definition example_store :: mstore where
  "example_store =
     snd (mem_put example_platform example_keys ''0.1'' Map.empty ''furbie''
            (example_opts (Some 1) (Some ''pineapple-salt'')))"

section \<open>JSON text\<close>

subsection \<open>\<open>JSON.stringify\<close> of a string and of the pointer envelope\<close>

definition hex4 :: "nat \<Rightarrow> string" where
  "hex4 n = [hex_digit (n div 4096), hex_digit (n div 256), hex_digit (n div 16), hex_digit n]"

definition json_escape_char :: "char \<Rightarrow> string" where
  "json_escape_char c =
     (if c = CHR 0x22 then [CHR 0x5C, CHR 0x22]
      else if c = CHR 0x5C then [CHR 0x5C, CHR 0x5C]
      else if c = CHR 0x08 then [CHR 0x5C, CHR ''b'']
      else if c = CHR 0x09 then [CHR 0x5C, CHR ''t'']
      else if c = CHR 0x0A then [CHR 0x5C, CHR ''n'']
      else if c = CHR 0x0C then [CHR 0x5C, CHR ''f'']
      else if c = CHR 0x0D then [CHR 0x5C, CHR ''r'']
      else if (of_char c :: nat) < 32 then [CHR 0x5C, CHR ''u''] @ hex4 (of_char c)
      else [c])"

definition json_quote :: "string \<Rightarrow> string" where
  "json_quote s = CHR 0x22 # concat (map json_escape_char s) @ [CHR 0x22]"

fun join_comma :: "string list \<Rightarrow> string" where
  "join_comma [] = []"
| "join_comma [x] = x"
| "join_comma (x # y # ys) = x @ CHR '','' # join_comma (y # ys)"

text \<open>
  \<open>wrapPointers\<close>: \<open>JSON.stringify({ wasteland_type: 'pointers', p: pointers })\<close> for
  an array of strings.
\<close>

definition wrapPointers :: "address list \<Rightarrow> string" where
  "wrapPointers ps =
     CHR ''{'' # json_quote ''wasteland_type'' @ CHR '':'' # json_quote ''pointers'' @
     CHR '','' # json_quote ''p'' @ CHR '':'' # CHR ''['' #
     join_comma (map json_quote ps) @ [CHR '']'', CHR ''}'']"

subsection \<open>\<open>JSON.parse\<close>\<close>

text \<open>
  The JSON grammar of ECMAScript as two automata: a lexer that reads the text
  character by character and a push-down parser that reads the tokens. The value of a
  number is not kept. A \<open>\u\<close> escape is decoded to the UTF-8 bytes of its code unit.
\<close>

datatype json =
    JNull
  | JBool bool
  | JNumber
  | JString string
  | JArray "json list"
  | JObject "(string \<times> json) list"

datatype token =
    TLBrace | TRBrace | TLBrack | TRBrack | TColon | TComma
  | TStr string | TNum | TTrue | TFalse | TNull

datatype nstate = NMinus | NZero | NInt | NDot | NFrac | NE | NESign | NExp

datatype lstate =
    LIdle
  | LStr string
  | LEsc string
  | LUni string "nat list"
  | LNum nstate
  | LLit string token

definition is_digit :: "char \<Rightarrow> bool" where
  "is_digit c = (48 \<le> (of_char c :: nat) \<and> (of_char c :: nat) \<le> 57)"

definition is_ws :: "char \<Rightarrow> bool" where
  "is_ws c = (c = CHR '' '' \<or> c = CHR 0x09 \<or> c = CHR 0x0A \<or> c = CHR 0x0D)"

definition hex_value :: "char \<Rightarrow> nat option" where
  "hex_value c =
     (let n = (of_char c :: nat) in
      if 48 \<le> n \<and> n \<le> 57 then Some (n - 48)
      else if 97 \<le> n \<and> n \<le> 102 then Some (n - 87)
      else if 65 \<le> n \<and> n \<le> 70 then Some (n - 55)
      else None)"

definition utf8_unit :: "nat \<Rightarrow> string" where
  "utf8_unit n =
     (if n < 128 then [char_of n]
      else if n < 2048 then [char_of (192 + n div 64), char_of (128 + n mod 64)]
      else [char_of (224 + n div 4096), char_of (128 + (n div 64) mod 64),
            char_of (128 + n mod 64)])"

definition idle_step :: "char \<Rightarrow> (token list \<times> lstate) option" where
  "idle_step c =
     (if is_ws c then Some ([], LIdle)
      else if c = CHR ''{'' then Some ([TLBrace], LIdle)
      else if c = CHR ''}'' then Some ([TRBrace], LIdle)
      else if c = CHR ''['' then Some ([TLBrack], LIdle)
      else if c = CHR '']'' then Some ([TRBrack], LIdle)
      else if c = CHR '':'' then Some ([TColon], LIdle)
      else if c = CHR '','' then Some ([TComma], LIdle)
      else if c = CHR 0x22 then Some ([], LStr [])
      else if c = CHR ''-'' then Some ([], LNum NMinus)
      else if c = CHR ''0'' then Some ([], LNum NZero)
      else if is_digit c then Some ([], LNum NInt)
      else if c = CHR ''t'' then Some ([], LLit ''rue'' TTrue)
      else if c = CHR ''f'' then Some ([], LLit ''alse'' TFalse)
      else if c = CHR ''n'' then Some ([], LLit ''ull'' TNull)
      else None)"

definition end_number :: "char \<Rightarrow> (token list \<times> lstate) option" where
  "end_number c =
     (case idle_step c of None \<Rightarrow> None | Some (ts, st) \<Rightarrow> Some (TNum # ts, st))"

definition is_exp :: "char \<Rightarrow> bool" where
  "is_exp c = (c = CHR ''e'' \<or> c = CHR ''E'')"

fun num_step :: "nstate \<Rightarrow> char \<Rightarrow> (token list \<times> lstate) option" where
  "num_step NMinus c =
     (if c = CHR ''0'' then Some ([], LNum NZero)
      else if is_digit c then Some ([], LNum NInt) else None)"
| "num_step NZero c =
     (if c = CHR ''.'' then Some ([], LNum NDot)
      else if is_exp c then Some ([], LNum NE) else end_number c)"
| "num_step NInt c =
     (if is_digit c then Some ([], LNum NInt)
      else if c = CHR ''.'' then Some ([], LNum NDot)
      else if is_exp c then Some ([], LNum NE) else end_number c)"
| "num_step NDot c = (if is_digit c then Some ([], LNum NFrac) else None)"
| "num_step NFrac c =
     (if is_digit c then Some ([], LNum NFrac)
      else if is_exp c then Some ([], LNum NE) else end_number c)"
| "num_step NE c =
     (if c = CHR ''+'' \<or> c = CHR ''-'' then Some ([], LNum NESign)
      else if is_digit c then Some ([], LNum NExp) else None)"
| "num_step NESign c = (if is_digit c then Some ([], LNum NExp) else None)"
| "num_step NExp c = (if is_digit c then Some ([], LNum NExp) else end_number c)"

definition esc_char :: "char \<Rightarrow> char option" where
  "esc_char c =
     (if c = CHR 0x22 \<or> c = CHR 0x5C \<or> c = CHR ''/'' then Some c
      else if c = CHR ''b'' then Some (CHR 0x08)
      else if c = CHR ''f'' then Some (CHR 0x0C)
      else if c = CHR ''n'' then Some (CHR 0x0A)
      else if c = CHR ''r'' then Some (CHR 0x0D)
      else if c = CHR ''t'' then Some (CHR 0x09)
      else None)"

text \<open>The string being read is accumulated in reverse.\<close>

fun lex_step :: "lstate \<Rightarrow> char \<Rightarrow> (token list \<times> lstate) option" where
  "lex_step LIdle c = idle_step c"
| "lex_step (LStr acc) c =
     (if c = CHR 0x22 then Some ([TStr (rev acc)], LIdle)
      else if c = CHR 0x5C then Some ([], LEsc acc)
      else if (of_char c :: nat) < 32 then None
      else Some ([], LStr (c # acc)))"
| "lex_step (LEsc acc) c =
     (if c = CHR ''u'' then Some ([], LUni acc [])
      else (case esc_char c of None \<Rightarrow> None | Some d \<Rightarrow> Some ([], LStr (d # acc))))"
| "lex_step (LUni acc ds) c =
     (case hex_value c of
        None \<Rightarrow> None
      | Some h \<Rightarrow>
          if length ds = 3
          then Some ([], LStr (rev (utf8_unit (foldl (\<lambda>a d. 16 * a + d) 0 (ds @ [h]))) @ acc))
          else Some ([], LUni acc (ds @ [h])))"
| "lex_step (LNum ns) c = num_step ns c"
| "lex_step (LLit [] t) c = None"
| "lex_step (LLit (x # xs) t) c =
     (if c \<noteq> x then None
      else if xs = [] then Some ([t], LIdle) else Some ([], LLit xs t))"

fun lex_end :: "lstate \<Rightarrow> token list option" where
  "lex_end LIdle = Some []"
| "lex_end (LNum NZero) = Some [TNum]"
| "lex_end (LNum NInt) = Some [TNum]"
| "lex_end (LNum NFrac) = Some [TNum]"
| "lex_end (LNum NExp) = Some [TNum]"
| "lex_end _ = None"

fun lex :: "lstate \<Rightarrow> string \<Rightarrow> token list option" where
  "lex st [] = lex_end st"
| "lex st (c # cs) =
     (case lex_step st c of
        None \<Rightarrow> None
      | Some (ts, st') \<Rightarrow> (case lex st' cs of None \<Rightarrow> None | Some ts' \<Rightarrow> Some (ts @ ts')))"

datatype ctx =
    InArr "json list"
  | InObj "(string \<times> json) list"
  | InMember "(string \<times> json) list" string

datatype mode = MValue | MValueOrEnd | MKeyOrEnd | MKey | MColon | MAfter json

fun value_step :: "ctx list \<Rightarrow> token \<Rightarrow> (mode \<times> ctx list) option" where
  "value_step st (TStr s) = Some (MAfter (JString s), st)"
| "value_step st TNum = Some (MAfter JNumber, st)"
| "value_step st TTrue = Some (MAfter (JBool True), st)"
| "value_step st TFalse = Some (MAfter (JBool False), st)"
| "value_step st TNull = Some (MAfter JNull, st)"
| "value_step st TLBrack = Some (MValueOrEnd, InArr [] # st)"
| "value_step st TLBrace = Some (MKeyOrEnd, InObj [] # st)"
| "value_step st _ = None"

text \<open>Elements and members are accumulated in reverse.\<close>

fun parse_step :: "mode \<times> ctx list \<Rightarrow> token \<Rightarrow> (mode \<times> ctx list) option" where
  "parse_step (MValue, st) t = value_step st t"
| "parse_step (MValueOrEnd, InArr es # st) t =
     (if t = TRBrack then Some (MAfter (JArray (rev es)), st)
      else value_step (InArr es # st) t)"
| "parse_step (MKeyOrEnd, InObj ms # st) TRBrace = Some (MAfter (JObject (rev ms)), st)"
| "parse_step (MKeyOrEnd, InObj ms # st) (TStr key) = Some (MColon, InMember ms key # st)"
| "parse_step (MKey, InObj ms # st) (TStr key) = Some (MColon, InMember ms key # st)"
| "parse_step (MColon, st) TColon = Some (MValue, st)"
| "parse_step (MAfter j, InArr es # st) TComma = Some (MValue, InArr (j # es) # st)"
| "parse_step (MAfter j, InArr es # st) TRBrack = Some (MAfter (JArray (rev (j # es))), st)"
| "parse_step (MAfter j, InMember ms key # st) TComma =
     Some (MKey, InObj ((key, j) # ms) # st)"
| "parse_step (MAfter j, InMember ms key # st) TRBrace =
     Some (MAfter (JObject (rev ((key, j) # ms))), st)"
| "parse_step _ _ = None"

fun parse_tokens :: "mode \<times> ctx list \<Rightarrow> token list \<Rightarrow> json option" where
  "parse_tokens (MAfter j, []) [] = Some j"
| "parse_tokens _ [] = None"
| "parse_tokens s (t # ts) =
     (case parse_step s t of None \<Rightarrow> None | Some s' \<Rightarrow> parse_tokens s' ts)"

text \<open>\<open>JSON.parse\<close>: \<open>None\<close> when it throws a SyntaxError.\<close>

definition JSON_parse :: "string \<Rightarrow> json option" where
  "JSON_parse s =
     (case lex LIdle s of None \<Rightarrow> None | Some ts \<Rightarrow> parse_tokens (MValue, []) ts)"

text \<open>Property access on a parsed object: of duplicate members the last one counts.\<close>

definition member :: "(string \<times> json) list \<Rightarrow> string \<Rightarrow> json option" where
  "member ms key = map_of (rev ms) key"

section \<open>The Grenache backend\<close>

subsection \<open>The transport, the world and the backend object\<close>

text \<open>
  The transport is the link object handed to the constructor. Its three operations are
  parameters: \<open>put\<close> and \<open>putMutable\<close> answer with an error or an address and change
  the transport's state, \<open>get\<close> answers with an error or a record.
\<close>

record 't transport =
  t_put :: "payload \<Rightarrow> 't \<Rightarrow> (error + address) \<times> 't"
  t_putMutable :: "payload \<Rightarrow> opts \<Rightarrow> 't \<Rightarrow> (error + address) \<times> 't"
  t_get :: "address \<Rightarrow> 't \<Rightarrow> error + payload"

text \<open>
  What a call can change besides \<open>opts\<close>: the state of the transport and the number of
  \<open>Math.random()\<close> values drawn so far.
\<close>

record 't world =
  tstate :: 't
  rnd_ix :: nat

record conf =
  maxIndirections :: nat
  bufferSizelimit :: nat
  addressSize :: nat
  concurrentRequests :: nat
  keys :: "keypair option"

text \<open>The backend object: its configuration and the two limits the constructor derives.\<close>

record backend = conf +
  maxPointersPerBuffer :: nat
  maxSliceCount :: nat

subsection \<open>The data helper\<close>

text \<open>
  Modelled from the spec: \<open>prepareData\<close> of \<open>lib/data-helper.js\<close>, the slicer. It
  splits the payload into fragments of exactly \<open>limit\<close> bytes, the last one possibly
  shorter; the empty payload is a single empty fragment. A limit of zero (on which the
  spec is silent) leaves the payload whole.
\<close>

function prepareData :: "string \<Rightarrow> nat \<Rightarrow> string list" where
  "prepareData data limit =
     (if limit = 0 \<or> length data \<le> limit then [data]
      else take limit data # prepareData (drop limit data) limit)"
  by pat_completeness auto
termination
  by (relation "measure (\<lambda>(data, limit). length data)") auto

text \<open>
  Modelled from the spec: \<open>getMaxPointersPerBuffer\<close> of \<open>lib/data-helper.js\<close>, the
  fan-out \<open>K = floor((B - O) / (A + separator_overhead))\<close>, with \<open>O\<close> the length of the
  envelope around an empty pointer array and two quotes and a comma as the separator
  overhead of one address.
\<close>

definition getMaxPointersPerBuffer :: "nat \<Rightarrow> nat \<Rightarrow> nat" where
  "getMaxPointersPerBuffer B A = (B - length (wrapPointers [])) div (A + 3)"

text \<open>
  Modelled from the spec: \<open>getSliceLimit\<close> of \<open>lib/data-helper.js\<close>. The largest
  payload of a tree of depth \<open>D\<close> is \<open>K^D * B\<close> bytes, that is \<open>K^D\<close> slices.
\<close>

definition getSliceLimit :: "nat \<Rightarrow> nat \<Rightarrow> nat \<Rightarrow> nat" where
  "getSliceLimit B K D = K ^ D"

text \<open>
  Modelled from the spec: \<open>prepareMultiLevelData\<close> of \<open>lib/data-helper.js\<close>, which
  groups the fragments into consecutive boxes of size \<open>K\<close>.
\<close>

function prepareMultiLevelData :: "'a list \<Rightarrow> nat \<Rightarrow> 'a list list" where
  "prepareMultiLevelData xs K =
     (if K = 0 \<or> xs = [] then []
      else take K xs # prepareMultiLevelData (drop K xs) K)"
  by pat_completeness auto
termination
  by (relation "measure (\<lambda>(xs, K). length xs)") auto

text \<open>The constructor (the transport is passed to the operations separately).\<close>

definition GrenacheBackend :: "conf \<Rightarrow> backend" where
  "GrenacheBackend c =
     (let K = getMaxPointersPerBuffer (bufferSizelimit c) (addressSize c) in
      \<lparr>maxIndirections = maxIndirections c, bufferSizelimit = bufferSizelimit c,
       addressSize = addressSize c, concurrentRequests = concurrentRequests c,
       keys = keys c,
       maxPointersPerBuffer = K,
       maxSliceCount = getSliceLimit (bufferSizelimit c) K (maxIndirections c)\<rparr>)"

definition default_conf :: conf where
  "default_conf =
     \<lparr>maxIndirections = 2, bufferSizelimit = 1000, addressSize = 40,
      concurrentRequests = 5, keys = None\<rparr>"

subsection \<open>Writing\<close>

text \<open>\<open>!opts.seq\<close> for a sequence number that is an integer or \<open>undefined\<close>.\<close>

definition not_seq :: "int option \<Rightarrow> bool" where
  "not_seq s = (s = None \<or> s = Some 0)"

definition getPayload :: "string \<Rightarrow> opts \<Rightarrow> payload" where
  "getPayload data os =
     (let res = empty_payload\<lparr>v := Some data\<rparr> in
      if not_seq (opt_seq os) then res
      else (if truthy (opt_salt os) then res\<lparr>salt := opt_salt os\<rparr> else res)
             \<lparr>seq := opt_seq os\<rparr>)"

text \<open>The backend's own \<open>getSha\<close> draws the next random value.\<close>

definition gb_getSha :: "platform \<Rightarrow> string \<Rightarrow> 't world \<Rightarrow> string \<times> 't world" where
  "gb_getSha pf data w =
     (getSha pf (math_random pf (rnd_ix w)) data, w\<lparr>rnd_ix := Suc (rnd_ix w)\<rparr>)"

definition sendImmutable ::
  "'t transport \<Rightarrow> payload \<Rightarrow> opts \<Rightarrow> 't world \<Rightarrow> (error + address) \<times> opts \<times> 't world" where
  "sendImmutable T p os w =
     (let p' = (if truthy (opt_salt os) then p\<lparr>salt := opt_salt os\<rparr> else p);
          (r, t') = t_put T p' (tstate w)
      in (r, os, w\<lparr>tstate := t'\<rparr>))"

definition sendMutable ::
  "'t transport \<Rightarrow> payload \<Rightarrow> opts \<Rightarrow> 't world \<Rightarrow> (error + address) \<times> opts \<times> 't world" where
  "sendMutable T p os w =
     (let (r, t') = t_putMutable T p os (tstate w) in (r, os, w\<lparr>tstate := t'\<rparr>))"

definition send ::
  "'t transport \<Rightarrow> backend \<Rightarrow> string \<Rightarrow> opts \<Rightarrow> 't world
     \<Rightarrow> (error + address) \<times> opts \<times> 't world" where
  "send T b data os w =
     (let p = getPayload data os in
      if opt_seq os \<noteq> Some 0 \<and> not_seq (opt_seq os) then sendImmutable T p os w
      else (case keys b of
              None \<Rightarrow> (Inl NoKeysSet, os, w)
            | Some ks \<Rightarrow> sendMutable T p (os\<lparr>opt_keys := Some ks\<rparr>) w))"

text \<open>
  \<open>storeParallel\<close>: one task per slice, each setting \<open>opts.salt\<close> to a fresh digest of
  its slice and sending it. The tasks are taken to complete in the order they are
  started; the first error ends the run.
\<close>

fun storeParallel ::
  "'t transport \<Rightarrow> platform \<Rightarrow> backend \<Rightarrow> string list \<Rightarrow> opts \<Rightarrow> 't world
     \<Rightarrow> (error + address list) \<times> opts \<times> 't world" where
  "storeParallel T pf b [] os w = (Inr [], os, w)"
| "storeParallel T pf b (chunk # rest) os w =
     (let (sha, w1) = gb_getSha pf chunk w;
          (r, os2, w2) = send T b chunk (os\<lparr>opt_salt := Some sha\<rparr>) w1
      in (case r of
            Inl e \<Rightarrow> (Inl e, os2, w2)
          | Inr a \<Rightarrow>
             (case storeParallel T pf b rest os2 w2 of
                (Inl e, os3, w3) \<Rightarrow> (Inl e, os3, w3)
              | (Inr as, os3, w3) \<Rightarrow> (Inr (a # as), os3, w3))))"

definition wrapAndStorePointers ::
  "'t transport \<Rightarrow> platform \<Rightarrow> backend \<Rightarrow> address list \<Rightarrow> opts \<Rightarrow> 't world
     \<Rightarrow> (error + address) \<times> opts \<times> 't world" where
  "wrapAndStorePointers T pf b ps os w =
     (let wrapped = wrapPointers ps;
          (sha, w1) = gb_getSha pf (json_quote wrapped) w
      in send T b wrapped (os\<lparr>opt_salt := Some sha\<rparr>) w1)"

text \<open>The boxes of \<open>storeUntilPointersFit\<close>, stored one after the other.\<close>

fun storeSeries ::
  "'t transport \<Rightarrow> platform \<Rightarrow> backend \<Rightarrow> string list list \<Rightarrow> opts \<Rightarrow> 't world
     \<Rightarrow> (error + address list list) \<times> opts \<times> 't world" where
  "storeSeries T pf b [] os w = (Inr [], os, w)"
| "storeSeries T pf b (box # rest) os w =
     (case storeParallel T pf b box os w of
        (Inl e, os1, w1) \<Rightarrow> (Inl e, os1, w1)
      | (Inr ps, os1, w1) \<Rightarrow>
         (case storeSeries T pf b rest os1 w1 of
            (Inl e, os2, w2) \<Rightarrow> (Inl e, os2, w2)
          | (Inr pss, os2, w2) \<Rightarrow> (Inr (ps # pss), os2, w2)))"

text \<open>
  \<open>put\<close>, \<open>storeChunked\<close> and \<open>storeUntilPointersFit\<close> call each other:
  \<open>storeUntilPointersFit\<close> and \<open>storeChunked\<close> take the \<open>put\<close> they call back into
  as their first argument. The first argument of \<open>put\<close> bounds the number of nested
  calls of \<open>put\<close>, and the result is \<open>None\<close> when the bound is used up. Of a result
  \<open>Some (r, opts, world)\<close> the component \<open>r\<close> is what the callback of \<open>put\<close> received,
  \<open>None\<close> when the callback was never invoked.
\<close>

type_synonym 't put_result = "((error + address) option \<times> opts \<times> 't world) option"

definition storeUntilPointersFit ::
  "(string \<Rightarrow> opts \<Rightarrow> 't world \<Rightarrow> 't put_result) \<Rightarrow> 't transport \<Rightarrow> platform \<Rightarrow> backend
     \<Rightarrow> string list list \<Rightarrow> opts \<Rightarrow> 't world \<Rightarrow> 't put_result" where
  "storeUntilPointersFit this_put T pf b boxes os w =
     (case storeSeries T pf b boxes os w of
        (Inl e, os1, w1) \<Rightarrow> Some (None, os1, w1)
      | (Inr res, os1, w1) \<Rightarrow> this_put (wrapPointers (concat res)) os1 w1)"

definition storeChunked ::
  "(string \<Rightarrow> opts \<Rightarrow> 't world \<Rightarrow> 't put_result) \<Rightarrow> 't transport \<Rightarrow> platform \<Rightarrow> backend
     \<Rightarrow> string list \<Rightarrow> opts \<Rightarrow> 't world \<Rightarrow> 't put_result" where
  "storeChunked this_put T pf b slices os w =
     (if length slices < maxPointersPerBuffer b then
        (case storeParallel T pf b slices os w of
           (Inl e, os1, w1) \<Rightarrow> Some (Some (Inl e), os1, w1)
         | (Inr pointers, os1, w1) \<Rightarrow>
             (let (r, os2, w2) = wrapAndStorePointers T pf b pointers os1 w1
              in Some (Some r, os2, w2)))
      else if length slices > maxSliceCount b then Some (Some (Inl DataTooLarge), os, w)
      else storeUntilPointersFit this_put T pf b
             (prepareMultiLevelData slices (maxPointersPerBuffer b)) os w)"

text \<open>The single-slice branch of \<open>put\<close>.\<close>

definition put_single ::
  "'t transport \<Rightarrow> platform \<Rightarrow> backend \<Rightarrow> string \<Rightarrow> opts \<Rightarrow> 't world \<Rightarrow> 't put_result" where
  "put_single T pf b slice os w =
     (let (os1, w1) =
            (if \<not> truthy (opt_salt os)
             then (let (sha, w') = gb_getSha pf slice w in (os\<lparr>opt_salt := Some sha\<rparr>, w'))
             else (os, w));
          (r, os2, w2) = send T b slice os1 w1
      in Some (Some r, os2, w2))"

fun put ::
  "nat \<Rightarrow> 't transport \<Rightarrow> platform \<Rightarrow> backend \<Rightarrow> string \<Rightarrow> opts \<Rightarrow> 't world \<Rightarrow> 't put_result"
where
  "put 0 T pf b data os w = None"
| "put (Suc n) T pf b data os w =
     (let slices = prepareData data (bufferSizelimit b) in
      if length slices = 1 then put_single T pf b (hd slices) os w
      else storeChunked (put n T pf b) T pf b slices os w)"

subsection \<open>Reading\<close>

text \<open>\<open>isResultChunked\<close> of the parsed content.\<close>

fun isResultChunked :: "json \<Rightarrow> bool" where
  "isResultChunked (JObject ms) = (member ms ''wasteland_type'' = Some (JString ''pointers''))"
| "isResultChunked _ = False"

text \<open>
  \<open>content.p\<close> as the list of keys \<open>handleChunked\<close> maps over: \<open>None\<close> when it is not an
  array (then \<open>pointers.map\<close> throws) and also when an element is not a string, which
  this model does not follow further.
\<close>

fun string_of_json :: "json \<Rightarrow> string option" where
  "string_of_json (JString s) = Some s"
| "string_of_json _ = None"

fun content_p :: "json \<Rightarrow> string list option" where
  "content_p (JObject ms) =
     (case member ms ''p'' of
        Some (JArray js) \<Rightarrow>
          (if list_all (\<lambda>j. string_of_json j \<noteq> None) js
           then Some (map (\<lambda>j. the (string_of_json j)) js) else None)
      | _ \<Rightarrow> None)"
| "content_p _ = None"

text \<open>The child fetches of \<open>getRetrieveTasks\<close>: \<open>get\<close> with the recursive flag.\<close>

definition get_recursive :: "'t transport \<Rightarrow> address \<Rightarrow> 't \<Rightarrow> error + payload" where
  "get_recursive T key t = (if key = [] then Inl NoKeyProvided else t_get T key t)"

fun retrieveAll :: "'t transport \<Rightarrow> address list \<Rightarrow> 't \<Rightarrow> error + payload list" where
  "retrieveAll T [] t = Inr []"
| "retrieveAll T (p # ps) t =
     (case get_recursive T p t of
        Inl e \<Rightarrow> Inl e
      | Inr r \<Rightarrow> (case retrieveAll T ps t of Inl e \<Rightarrow> Inl e | Inr rs \<Rightarrow> Inr (r # rs)))"

text \<open>\<open>acc + el.v\<close>: a missing \<open>v\<close> is appended as the text \<open>undefined\<close>.\<close>

definition plus_v :: "string \<Rightarrow> payload \<Rightarrow> string" where
  "plus_v acc el = acc @ (case v el of Some s \<Rightarrow> s | None \<Rightarrow> ''undefined'')"

text \<open>
  \<open>maybeRetrieveChunked\<close> and \<open>handleChunked\<close> call each other: \<open>handleChunked\<close>
  takes the \<open>maybeRetrieveChunked\<close> it calls back into as its first argument. The first
  argument of \<open>maybeRetrieveChunked\<close> bounds the number of rounds, the result is \<open>None\<close>
  when it is used up, and of a result \<open>Some r\<close> the component \<open>r\<close> is what the callback
  received, \<open>None\<close> when an exception escaped instead.
\<close>

type_synonym get_result = "(error + payload) option option"

definition handleChunked ::
  "(payload \<Rightarrow> 't \<Rightarrow> get_result) \<Rightarrow> 't transport \<Rightarrow> payload \<Rightarrow> string list option \<Rightarrow> 't
     \<Rightarrow> get_result" where
  "handleChunked this_maybe T p pointers t =
     (case pointers of
        None \<Rightarrow> Some None
      | Some ps \<Rightarrow>
         (let p1 = p\<lparr>original := v p\<rparr> in
          case retrieveAll T ps t of
            Inl e \<Rightarrow> Some (Some (Inl e))
          | Inr res \<Rightarrow> this_maybe (p1\<lparr>v := Some (foldl plus_v [] res)\<rparr>) t))"

fun maybeRetrieveChunked :: "nat \<Rightarrow> 't transport \<Rightarrow> payload \<Rightarrow> 't \<Rightarrow> get_result" where
  "maybeRetrieveChunked 0 T initialPayload t = None"
| "maybeRetrieveChunked (Suc n) T initialPayload t =
     (case (case v initialPayload of None \<Rightarrow> None | Some s \<Rightarrow> JSON_parse s) of
        None \<Rightarrow> Some (Some (Inr initialPayload))
      | Some content \<Rightarrow>
          if isResultChunked content
          then handleChunked (maybeRetrieveChunked n T) T initialPayload (content_p content) t
          else Some (Some (Inr initialPayload)))"

definition get ::
  "nat \<Rightarrow> 't transport \<Rightarrow> address \<Rightarrow> opts \<Rightarrow> 't \<Rightarrow> get_result" where
  "get n T key os t =
     (if key = [] then Some (Some (Inl NoKeyProvided))
      else (case t_get T key t of
              Inl e \<Rightarrow> Some (Some (Inl e))
            | Inr data \<Rightarrow>
                if opt_recursive os then Some (Some (Inr data))
                else maybeRetrieveChunked n T data t))"

section \<open>A transport and a platform for the examples\<close>

text \<open>
  A small digest of 40 hex characters (two running sums and the length), standing in
  for SHA-1 in the examples.
\<close>

fun toy_sums :: "nat \<times> nat \<Rightarrow> string \<Rightarrow> nat \<times> nat" where
  "toy_sums (a, b) [] = (a, b)"
| "toy_sums (a, b) (c # cs) =
     toy_sums ((a + of_char c) mod 65521, (b + a + of_char c) mod 65521) cs"

definition toy_digest :: "string \<Rightarrow> string" where
  "toy_digest s =
     (case toy_sums (1, 0) s of
        (a, b) \<Rightarrow> hex4 a @ hex4 b @ hex4 (length s) @ replicate 28 CHR ''0'')"

text \<open>
  The example transport keeps the records it accepted, newest first. An immutable
  record is addressed by the digest of its \<open>v\<close>; a mutable one by the digest of the
  public key followed by the salt of the options, it gets \<open>seq\<close> and \<open>salt\<close> from the
  options and \<open>k\<close> from the key, and it is rejected when the address holds a record whose
  \<open>seq\<close> is not smaller. A read of an unknown address gives a record with no \<open>v\<close>.
\<close>

type_synonym dht = "(address \<times> payload) list"

definition dht_put :: "payload \<Rightarrow> dht \<Rightarrow> (error + address) \<times> dht" where
  "dht_put p d =
     (let a = toy_digest (case v p of Some s \<Rightarrow> s | None \<Rightarrow> []) in (Inr a, (a, p) # d))"

definition seq_less :: "int option \<Rightarrow> int option \<Rightarrow> bool" where
  "seq_less old new =
     (case (old, new) of (Some x, Some y) \<Rightarrow> x < y | _ \<Rightarrow> False)"

definition dht_putMutable :: "payload \<Rightarrow> opts \<Rightarrow> dht \<Rightarrow> (error + address) \<times> dht" where
  "dht_putMutable p os d =
     (case opt_keys os of
        None \<Rightarrow> (Inl (TransportError ''no keys''), d)
      | Some ks \<Rightarrow>
         (let a = toy_digest (publicKey ks @ (case opt_salt os of Some s \<Rightarrow> s | None \<Rightarrow> []));
              r = p\<lparr>seq := opt_seq os, salt := opt_salt os,
                     k := Some (toString_hex (publicKey ks))\<rparr>
          in (case map_of d a of
                None \<Rightarrow> (Inr a, (a, r) # d)
              | Some old \<Rightarrow>
                  if seq_less (seq old) (opt_seq os) then (Inr a, (a, r) # d)
                  else (Inl (TransportError ''302 sequence number less than current''), d))))"

definition dht_get :: "address \<Rightarrow> dht \<Rightarrow> error + payload" where
  "dht_get a d =
     (case map_of d a of
        Some r \<Rightarrow> Inr (r\<lparr>id_tag := Some ''dht''\<rparr>)
      | None \<Rightarrow> Inr (empty_payload\<lparr>id_tag := Some ''dht''\<rparr>))"

definition example_transport :: "dht transport" where
  "example_transport = \<lparr>t_put = dht_put, t_putMutable = dht_putMutable, t_get = dht_get\<rparr>"

definition example_world :: "dht world" where
  "example_world = \<lparr>tstate = [], rnd_ix = 0\<rparr>"

text \<open>Whether the callback of \<open>put\<close> received an address.\<close>

fun stored :: "'t put_result \<Rightarrow> bool" where
  "stored (Some (Some (Inr a), os, w)) = True"
| "stored _ = False"



text \<open>
  A second example transport, whose immutable address is the letter \<open>i\<close> followed by
  the record's \<open>v\<close> itself: a function of the content that is injective.
\<close>

definition echo_address :: "string option \<Rightarrow> address" where
  "echo_address x = (case x of None \<Rightarrow> [] | Some s \<Rightarrow> CHR ''i'' # s)"



text \<open>
  A recording transport: it accepts every record, answers with the digest of its \<open>v\<close>,
  and keeps, in the order of the calls, the \<open>v\<close> and the salt of what it was given:
  the salt of the record for an immutable put, the salt of the options for a mutable
  one.
\<close>

type_synonym salt_log = "(string option \<times> string option) list"


text \<open>
  The fragments of a one-level write paired with the salts \<open>getStoreTasks\<close> draws for
  them, the first random value used being the \<open>c\<close>-th.
\<close>

fun leaf_salts :: "platform \<Rightarrow> nat \<Rightarrow> string list \<Rightarrow> salt_log" where
  "leaf_salts pf c [] = []"
| "leaf_salts pf c (s # ss) =
     (Some s, Some (getSha pf (math_random pf c) s)) # leaf_salts pf (Suc c) ss"

text \<open>
  A state of the example transport holding a tree of depth two: the root \<open>r\<close> points
  to the pointer buffer \<open>m\<close>, which points to the fragments \<open>l1\<close> and \<open>l2\<close>.
\<close>

definition two_level_store :: dht where
  "two_level_store =
     [(''r'', empty_payload\<lparr>v := Some (wrapPointers [''m''])\<rparr>),
      (''m'', empty_payload\<lparr>v := Some (wrapPointers [''l1'', ''l2''])\<rparr>),
      (''l1'', empty_payload\<lparr>v := Some ''furbie-''\<rparr>),
      (''l2'', empty_payload\<lparr>v := Some ''foo''\<rparr>)]"

section \<open>Notions for the round trip\<close>






definition pointers_of :: "string \<Rightarrow> string list option" where
  "pointers_of s =
     (case JSON_parse s of
        None \<Rightarrow> None
      | Some c \<Rightarrow> if isResultChunked c then content_p c else None)"

text \<open>The transport holds the text \<open>s\<close> at the address \<open>a\<close>.\<close>

definition holds :: "'t transport \<Rightarrow> 't \<Rightarrow> address \<Rightarrow> string \<Rightarrow> bool" where
  "holds T t a s = (a \<noteq> [] \<and> (\<exists>r. t_get T a t = Inr r \<and> v r = Some s))"



text \<open>
  The text \<open>s\<close> unfolds to \<open>P\<close>: it is \<open>P\<close>, or it is a pointer buffer whose pointers
  are held by the transport and whose concatenated contents unfold to \<open>P\<close>.
\<close>

inductive unfolds :: "'t transport \<Rightarrow> 't \<Rightarrow> string \<Rightarrow> string \<Rightarrow> bool"
  for T :: "'t transport" and t :: 't where
  unfolds_base: "unfolds T t P P"
| unfolds_step:
    "pointers_of s = Some ps \<Longrightarrow> list_all2 (holds T t) ps xs \<Longrightarrow>
     unfolds T t (concat xs) P \<Longrightarrow> unfolds T t s P"






section \<open>Properties of the memory backend\<close>


lemma length_toString_hex: "length (toString_hex bs) = 2 * length bs"
  by (induction bs) (simp_all add: toString_hex_def hex_byte_def)

lemma mem_key_getPayload:
  "mem_key (mem_getPayload pf ks rnd data os) = Some (mem_address pf ks rnd data os)"
  by (simp add: mem_key_def mem_getPayload_def mem_address_def mem_salt_def Let_def)

lemma seq_getPayload: "seq (mem_getPayload pf ks rnd data os) = opt_seq os"
  by (simp add: mem_getPayload_def Let_def)

lemma mem_put_cases:
  "mem_put pf ks rnd store data os =
     (if data = [] then (Inl NoDataProvided, store)
      else (case store (mem_address pf ks rnd data os) of
              None \<Rightarrow> (Inr (mem_address pf ks rnd data os),
                        store(mem_address pf ks rnd data os \<mapsto> mem_getPayload pf ks rnd data os))
            | Some old \<Rightarrow>
                if seq_conflict (seq old) (opt_seq os) then (Inl ERR_CONFLICT_SEQ, store)
                else (Inr (mem_address pf ks rnd data os),
                      store(mem_address pf ks rnd data os \<mapsto> mem_getPayload pf ks rnd data os))))"
  by (simp add: mem_put_def Let_def mem_key_getPayload seq_getPayload split: option.split)

text \<open>
  C10. A memory-backend put that reports an error (no data, or a sequence conflict at
  an occupied address) leaves the store exactly as it was.
\<close>

theorem mem_put_error_store_unchanged:
  "fst (mem_put pf ks rnd store data os) = Inl e \<Longrightarrow>
   snd (mem_put pf ks rnd store data os) = store"
  by (auto simp: mem_put_cases split: option.splits if_splits)

lemma example_address:
  "mem_address example_platform example_keys r d (example_opts s (Some ''pineapple-salt''))
     = ''6162303170696e656170706c652d73616c74''"
  by (simp add: mem_address_def mem_salt_def example_opts_def example_keys_def
      toString_hex_def hex_byte_def hex_digit_def)

lemma example_opts_sel:
  "opt_seq (example_opts s sl) = s" "opt_salt (example_opts s sl) = sl"
  by (simp_all add: example_opts_def)

lemma example_store_eq:
  "example_store =
     [''6162303170696e656170706c652d73616c74'' \<mapsto>
        mem_getPayload example_platform example_keys ''0.1'' ''furbie''
          (example_opts (Some 1) (Some ''pineapple-salt''))]"
  by (simp add: example_store_def mem_put_cases example_address)

lemma example_conflict:
  "fst (mem_put example_platform example_keys ''0.2'' example_store ''furbie''
          (example_opts (Some 1) (Some ''pineapple-salt''))) = Inl ERR_CONFLICT_SEQ"
  by (simp add: mem_put_cases example_address example_store_eq seq_getPayload
      seq_conflict_def example_opts_sel)

theorem mem_put_error_store_unchanged_witness:
  "fst (mem_put example_platform example_keys ''0.2'' example_store ''furbie''
          (example_opts (Some 1) (Some ''pineapple-salt''))) = Inl ERR_CONFLICT_SEQ \<and>
   snd (mem_put example_platform example_keys ''0.2'' example_store ''furbie''
          (example_opts (Some 1) (Some ''pineapple-salt''))) = example_store"
  using mem_put_error_store_unchanged [OF example_conflict] example_conflict by simp







section \<open>Properties of the data helper\<close>

declare prepareData.simps [simp del] prepareMultiLevelData.simps [simp del]

declare put.simps [simp del] maybeRetrieveChunked.simps [simp del]

lemma prepareData_small:
  "limit = 0 \<or> length data \<le> limit \<Longrightarrow> prepareData data limit = [data]"
  by (subst prepareData.simps) simp

lemma prepareData_big:
  "0 < limit \<Longrightarrow> limit < length data \<Longrightarrow>
   prepareData data limit = take limit data # prepareData (drop limit data) limit"
  by (subst prepareData.simps) simp





lemma prepareMultiLevelData_one_box:
  "0 < K \<Longrightarrow> xs \<noteq> [] \<Longrightarrow> length xs \<le> K \<Longrightarrow> prepareMultiLevelData xs K = [xs]"
  by (subst prepareMultiLevelData.simps, subst prepareMultiLevelData.simps) simp

lemma prepareMultiLevelData_Cons:
  "0 < K \<Longrightarrow> prepareMultiLevelData (x # xs) K =
     (x # take (K - 1) xs) # prepareMultiLevelData (drop (K - 1) xs) K"
  by (subst prepareMultiLevelData.simps) (cases K; simp)

lemma length_wrapPointers_Nil: "length (wrapPointers []) = 36"
  by (simp add: wrapPointers_def json_quote_def json_escape_char_def)

lemma GrenacheBackend_sel:
  "bufferSizelimit (GrenacheBackend c) = bufferSizelimit c"
  "maxIndirections (GrenacheBackend c) = maxIndirections c"
  "keys (GrenacheBackend c) = keys c"
  "maxPointersPerBuffer (GrenacheBackend c)
     = getMaxPointersPerBuffer (bufferSizelimit c) (addressSize c)"
  "maxSliceCount (GrenacheBackend c)
     = getMaxPointersPerBuffer (bufferSizelimit c) (addressSize c) ^ maxIndirections c"
  by (simp_all add: GrenacheBackend_def Let_def getSliceLimit_def)

lemma default_fanout: "getMaxPointersPerBuffer 1000 40 = 22"
  by (simp add: getMaxPointersPerBuffer_def length_wrapPointers_Nil)

section \<open>Properties of the Grenache backend: the write path\<close>


lemma send_no_keys:
  "opt_seq os = Some s \<Longrightarrow> keys b = None \<Longrightarrow> send T b data os w = (Inl NoKeysSet, os, w)"
  by (simp add: send_def Let_def not_seq_def)


text \<open>
  C5. The claim says that on the mutable path, \<open>seq = 0\<close> included, the record is
  populated with \<open>seq\<close>. With keys configured and \<open>opts.seq = 0\<close>, \<open>send\<close> does take
  the mutable path, but the record \<open>getPayload\<close> built for it carries neither \<open>seq\<close> nor
  the salt of the options: \<open>getPayload\<close> tests \<open>!opts.seq\<close>, which holds for \<open>0\<close>, where
  \<open>send\<close> tests \<open>opts.seq !== 0 && !opts.seq\<close>. With \<open>opts.seq = 1\<close> both are there.
\<close>

theorem send_seq_zero_record_without_seq:
  "send T (b\<lparr>keys := Some ks\<rparr>) data (os\<lparr>opt_seq := Some 0\<rparr>) w =
     sendMutable T (empty_payload\<lparr>v := Some data\<rparr>)
       (os\<lparr>opt_seq := Some 0, opt_keys := Some ks\<rparr>) w \<and>
   seq (getPayload data (os\<lparr>opt_seq := Some 0, opt_salt := Some ''pineapple-salt''\<rparr>)) = None \<and>
   salt (getPayload data (os\<lparr>opt_seq := Some 0, opt_salt := Some ''pineapple-salt''\<rparr>)) = None \<and>
   seq (getPayload data (os\<lparr>opt_seq := Some 1, opt_salt := Some ''pineapple-salt''\<rparr>)) = Some 1 \<and>
   salt (getPayload data (os\<lparr>opt_seq := Some 1, opt_salt := Some ''pineapple-salt''\<rparr>))
     = Some ''pineapple-salt''"
  by (simp add: send_def getPayload_def not_seq_def Let_def empty_payload_def)

lemma storeParallel_no_keys:
  "opt_seq os = Some s \<Longrightarrow> keys b = None \<Longrightarrow>
   fst (storeParallel T pf b (chunk # rest) os w) = Inl NoKeysSet"
  by (simp add: gb_getSha_def send_no_keys)

lemma storeSeries_no_keys:
  "opt_seq os = Some s \<Longrightarrow> keys b = None \<Longrightarrow>
   fst (storeSeries T pf b ((chunk # rest) # boxes) os w) = Inl NoKeysSet"
  using storeParallel_no_keys [of os s b T pf chunk rest w]
  by (cases "storeParallel T pf b (chunk # rest) os w") (auto split: sum.splits)

lemma storeUntilPointersFit_error:
  "fst (storeSeries T pf b boxes os w) = Inl e \<Longrightarrow>
   map_option fst (storeUntilPointersFit this_put T pf b boxes os w) = Some None"
  by (cases "storeSeries T pf b boxes os w") (auto simp: storeUntilPointersFit_def)

text \<open>
  C8. The claim says that an error of a sub-store on the sequential-boxes path reaches
  the callback of \<open>put\<close>. The code does otherwise: whenever a payload takes that path
  (its slice count is not 1, not below \<open>K\<close> and not above the slice limit) and the
  storing of the boxes ends with an error, whichever it is, the callback of \<open>put\<close> is
  never invoked. \<open>storeUntilPointersFit\<close> returns the error from its own callback
  (\<open>return err\<close>) where every other path calls back with it.
\<close>

theorem put_multilevel_error_never_reported:
  assumes "length (prepareData data (bufferSizelimit b)) \<noteq> 1"
    and "\<not> length (prepareData data (bufferSizelimit b)) < maxPointersPerBuffer b"
    and "\<not> maxSliceCount b < length (prepareData data (bufferSizelimit b))"
    and "fst (storeSeries T pf b
           (prepareMultiLevelData (prepareData data (bufferSizelimit b))
              (maxPointersPerBuffer b)) os w) = Inl e"
  shows "map_option fst (put (Suc n) T pf b data os w) = Some None"
  using storeUntilPointersFit_error [OF assms(4)] assms(1,2,3)
  by (simp add: put.simps storeChunked_def)

text \<open>
  With the default configuration, no keys and \<open>opts.seq = 1\<close>, a payload of 22000
  bytes is cut into 22 slices and takes that path; the first sub-store fails with
  "no keys set".
\<close>

theorem put_multilevel_error_never_reported_witness:
  "fst (storeSeries example_transport example_platform (GrenacheBackend default_conf)
          (prepareMultiLevelData
             (prepareData (replicate 22000 CHR ''a'')
                (bufferSizelimit (GrenacheBackend default_conf)))
             (maxPointersPerBuffer (GrenacheBackend default_conf)))
          (example_opts (Some 1) None) example_world) = Inl NoKeysSet \<and>
   map_option fst
     (put 1 example_transport example_platform (GrenacheBackend default_conf)
        (replicate 22000 CHR ''a'') (example_opts (Some 1) None) example_world) = Some None"
proof -
  let ?b = "GrenacheBackend default_conf"
  let ?os = "example_opts (Some 1) None"
  have sel: "bufferSizelimit ?b = 1000" "maxPointersPerBuffer ?b = 22"
    "maxSliceCount ?b = 484" "keys ?b = None"
    by (simp_all add: GrenacheBackend_sel default_conf_def default_fanout)
  have "\<exists>x y rest. prepareData (replicate 22000 CHR ''a'') 1000 = x # y # rest \<and>
          length (x # y # rest) = 22"
    by (simp add: prepareData_big prepareData_small)
  then obtain x y rest where sl: "prepareData (replicate 22000 CHR ''a'') 1000 = x # y # rest"
    and len: "length (x # y # rest) = 22" by blast
  have e: "fst (storeSeries example_transport example_platform ?b
          (prepareMultiLevelData (prepareData (replicate 22000 CHR ''a'') (bufferSizelimit ?b))
             (maxPointersPerBuffer ?b)) ?os example_world) = Inl NoKeysSet"
    unfolding sel sl
    by (simp add: prepareMultiLevelData_Cons storeSeries_no_keys [where s = 1] sel
        example_opts_sel del: storeSeries.simps storeParallel.simps)
  have "map_option fst (put (Suc 0) example_transport example_platform ?b
        (replicate 22000 CHR ''a'') ?os example_world) = Some None"
    by (rule put_multilevel_error_never_reported [OF _ _ _ e])
      (use len in \<open>simp_all add: sel sl del: length_Cons\<close>)
  with e show ?thesis by simp
qed

subsection \<open>Immutable writes to a content-addressed transport\<close>









subsection \<open>The capacity check\<close>




subsection \<open>Immutable idempotence\<close>











lemma inj_echo_address: "inj echo_address"
  by (rule injI) (auto simp: echo_address_def split: option.splits)


subsection \<open>The salts of a chunked write\<close>






lemma leaf_salts_example:
  "Some sl \<in> snd ` set (leaf_salts example_platform c slices) \<Longrightarrow> hd sl = CHR ''0''"
  by (induction slices arbitrary: c) (auto simp: getSha_def example_platform_def)





section \<open>Properties of the Grenache backend: the read path\<close>

lemmas json_eval =
  wrapPointers_def json_quote_def json_escape_char_def JSON_parse_def idle_step_def
  is_ws_def is_digit_def is_exp_def end_number_def esc_char_def hex_value_def member_def

text \<open>
  C4. The claim says that the record \<open>get\<close> returns has in \<open>original\<close> the root
  record's own \<open>v\<close> at every depth. In the store below the root \<open>r\<close> points to the
  pointer buffer \<open>m\<close>, which points to the two fragments. \<open>get\<close> returns the payload
  reassembled in \<open>v\<close>, as claimed, but \<open>original\<close> holds the text of \<open>m\<close>, the
  intermediate pointer buffer, not the root's own \<open>v\<close>: \<open>handleChunked\<close> assigns
  \<open>payload.original = payload.v\<close> again in every round, after the round before has
  overwritten \<open>payload.v\<close>.
\<close>

theorem get_original_two_levels:
  "get 3 example_transport ''r'' (example_opts None None) two_level_store
     = Some (Some (Inr (empty_payload\<lparr>v := Some ''furbie-foo'', id_tag := Some ''dht'',
          original := Some (wrapPointers [''l1'', ''l2''])\<rparr>))) \<and>
   t_get example_transport ''r'' two_level_store
     = Inr (empty_payload\<lparr>v := Some (wrapPointers [''m'']), id_tag := Some ''dht''\<rparr>) \<and>
   wrapPointers [''l1'', ''l2''] \<noteq> wrapPointers [''m'']"
  by (simp add: get_def example_transport_def dht_get_def example_opts_def
      two_level_store_def maybeRetrieveChunked.simps numeral_3_eq_3 numeral_2_eq_2 handleChunked_def
      json_eval get_recursive_def plus_v_def empty_payload_def)

text \<open>With one level of pointers \<open>original\<close> is the root's own \<open>v\<close>.\<close>

lemma get_original_one_level:
  "get 2 example_transport ''m'' (example_opts None None) two_level_store
     = Some (Some (Inr (empty_payload\<lparr>v := Some ''furbie-foo'', id_tag := Some ''dht'',
          original := Some (wrapPointers [''l1'', ''l2''])\<rparr>)))"
  by (simp add: get_def example_transport_def dht_get_def example_opts_def
      two_level_store_def maybeRetrieveChunked.simps numeral_3_eq_3 numeral_2_eq_2 handleChunked_def
      json_eval get_recursive_def plus_v_def empty_payload_def)

section \<open>Parsing what \<open>wrapPointers\<close> wrote\<close>













section \<open>The round trip\<close>

subsection \<open>What a write leaves in a faithful transport\<close>












subsection \<open>What a read makes of it\<close>






subsection \<open>The log transport is faithful\<close>















subsection \<open>The round trip\<close>







end
